theory Spec2Isabelle
  imports Main
begin

section \<open>Data model\<close>

text \<open>
  A message is a JavaScript object. The fields the provider reads are \<open>uuid\<close>,
  \<open>text\<close>, \<open>createdAt\<close> and \<open>outgoing\<close>. A field that is absent reads as
  \<open>undefined\<close>; for \<open>uuid\<close> and \<open>outgoing\<close> that is \<open>None\<close>.
  \<open>createdAt\<close> is the instant (milliseconds since the epoch) that the ISO-8601
  string denotes, so that the order on instants is the order on \<open>nat\<close>.
\<close>

record message =
  uuid :: "string option"
  msg_text :: string
  createdAt :: nat
  outgoing :: "bool option"

text \<open>An awaited promise either rejects (the \<open>catch\<close> block runs) or resolves.\<close>

datatype 'a outcome = Rejected | Resolved 'a

text \<open>The parsed body of the Gateway's answer to a send, and to a history request.\<close>

record send_response =
  resp_message :: "message option"
  resp_uuid :: "string option"

record messages_response =
  resp_messages :: "message list option"

text \<open>
  AsyncStorage keeps one JSON string per key. The provider only ever writes
  \<open>JSON.stringify\<close> of a message array and reads it back with \<open>JSON.parse\<close>,
  so a stored value is the message list itself; \<open>None\<close> is the \<open>null\<close> that
  \<open>getItem\<close> resolves to for a key never written.
\<close>

type_synonym async_storage = "string \<Rightarrow> message list option"

text \<open>
  A storage call inside \<open>sendMessage\<close> and \<open>loadMessages\<close> is awaited inside
  the \<open>try\<close> block, so its rejection is caught like the Gateway's. In
  \<open>sendMessage\<close> the write is reached only after the read has resolved.
\<close>

datatype store_fault = NoFault | ReadFails | WriteFails

text \<open>
  The provider's state: the \<open>useState\<close> cells \<open>messages\<close>, \<open>loading\<close>
  and \<open>error\<close>, and the persistent store.
\<close>

record app_state =
  messages :: "message list"
  loading :: bool
  error :: "string option"
  storage :: async_storage

section \<open>Number.prototype.toString on a non-negative integer\<close>

definition digit_char :: "nat \<Rightarrow> char" where
  "digit_char d = ''0123456789'' ! d"

function toString :: "nat \<Rightarrow> string" where
  "toString n = (if n < 10 then [digit_char n] else toString (n div 10) @ [digit_char (n mod 10)])"
  by pat_completeness auto
termination
  by (relation "measure (\<lambda>n. n)") auto

declare toString.simps [simp del]

section \<open>The load-time merge\<close>

text \<open>
  Lines 158-164 of AppProvider.tsx:
  \<^verbatim>\<open>[...fetchedMessages,
   ...localMessages.filter((localMsg) =>
        !fetchedMessages.some((msg) => msg.uuid === localMsg.uuid))]\<close>
\<close>

definition mergeMessages :: "message list \<Rightarrow> message list \<Rightarrow> message list" where
  "mergeMessages fetchedMessages localMessages =
     fetchedMessages @
     filter (\<lambda>localMsg. \<not> list_ex (\<lambda>msg. uuid msg = uuid localMsg) fetchedMessages)
       localMessages"

definition storage_key :: "string \<Rightarrow> string" where
  "storage_key contactUUID = ''messages_'' @ contactUUID"

section \<open>loadMessages\<close>

definition loadMessages_start :: "app_state \<Rightarrow> app_state" where
  "loadMessages_start s = s\<lparr>loading := True, error := None\<rparr>"

definition loadMessages_catch :: "app_state \<Rightarrow> message list \<times> app_state" where
  "loadMessages_catch s = ([], s\<lparr>error := Some ''Failed to load messages'', loading := False\<rparr>)"

definition loadMessages_resume ::
  "string \<Rightarrow> messages_response outcome \<Rightarrow> store_fault \<Rightarrow> app_state \<Rightarrow> message list \<times> app_state"
where
  "loadMessages_resume contactUUID gateway fault s =
     (case gateway of
        Rejected \<Rightarrow> loadMessages_catch s
      | Resolved response \<Rightarrow>
          let fetchedMessages = (case resp_messages response of None \<Rightarrow> [] | Some ms \<Rightarrow> ms) in
          if fault = ReadFails then loadMessages_catch s
          else
            let fetchedMessages' =
                  (case storage s (storage_key contactUUID) of
                     None \<Rightarrow> fetchedMessages
                   | Some localMessages \<Rightarrow> mergeMessages fetchedMessages localMessages)
            in (fetchedMessages', s\<lparr>messages := fetchedMessages', loading := False\<rparr>))"

definition loadMessages ::
  "string \<Rightarrow> messages_response outcome \<Rightarrow> store_fault \<Rightarrow> app_state \<Rightarrow> message list \<times> app_state"
where
  "loadMessages contactUUID gateway fault s =
     loadMessages_resume contactUUID gateway fault (loadMessages_start s)"

section \<open>sendMessage\<close>

definition sendMessage_start :: "app_state \<Rightarrow> app_state" where
  "sendMessage_start s = s\<lparr>loading := True, error := None\<rparr>"

definition sendMessage_catch :: "app_state \<Rightarrow> message option \<times> app_state" where
  "sendMessage_catch s = (None, s\<lparr>error := Some ''Failed to send message'', loading := False\<rparr>)"

text \<open>
  \<^verbatim>\<open>response.message || { uuid: response.uuid || Date.now().toString(), text,
                        createdAt: new Date().toISOString(), outgoing: true }\<close>
  An object is truthy; the empty string is falsy. \<open>date_now\<close> is what
  \<open>Date.now()\<close> reads and \<open>new_date\<close> the instant of \<open>new Date()\<close>.
\<close>

definition newMessage_of :: "send_response \<Rightarrow> string \<Rightarrow> nat \<Rightarrow> nat \<Rightarrow> message" where
  "newMessage_of response txt date_now new_date =
     (case resp_message response of
        Some m \<Rightarrow> m
      | None \<Rightarrow>
          \<lparr>uuid = Some (case resp_uuid response of
                          None \<Rightarrow> toString date_now
                        | Some u \<Rightarrow> if u = [] then toString date_now else u),
           msg_text = txt,
           createdAt = new_date,
           outgoing = Some True\<rparr>)"

definition sendMessage_resume ::
  "string \<Rightarrow> string \<Rightarrow> send_response outcome \<Rightarrow> nat \<Rightarrow> nat \<Rightarrow> store_fault \<Rightarrow> app_state
     \<Rightarrow> message option \<times> app_state"
where
  "sendMessage_resume contactUUID txt gateway date_now new_date fault s =
     (case gateway of
        Rejected \<Rightarrow> sendMessage_catch s
      | Resolved response \<Rightarrow>
          let newMessage = newMessage_of response txt date_now new_date;
              s' = s\<lparr>messages := messages s @ [newMessage]\<rparr>
          in
          if fault = ReadFails then sendMessage_catch s'
          else
            let stored = (case storage s' (storage_key contactUUID) of
                            None \<Rightarrow> [] | Some ms \<Rightarrow> ms)
            in
            if fault = WriteFails then sendMessage_catch s'
            else
              (Some newMessage,
               s'\<lparr>storage := (storage s')(storage_key contactUUID \<mapsto> stored @ [newMessage]),
                  loading := False\<rparr>))"

definition sendMessage ::
  "string \<Rightarrow> string \<Rightarrow> send_response outcome \<Rightarrow> nat \<Rightarrow> nat \<Rightarrow> store_fault \<Rightarrow> app_state
     \<Rightarrow> message option \<times> app_state"
where
  "sendMessage contactUUID txt gateway date_now new_date fault s =
     sendMessage_resume contactUUID txt gateway date_now new_date fault (sendMessage_start s)"

section \<open>deleteMessage\<close>

definition deleteMessage :: "string \<Rightarrow> unit outcome \<Rightarrow> app_state \<Rightarrow> bool \<times> app_state" where
  "deleteMessage messageUUID gateway s =
     (let s1 = s\<lparr>loading := True, error := None\<rparr> in
      case gateway of
        Rejected \<Rightarrow> (False, s1\<lparr>error := Some ''Failed to delete message'', loading := False\<rparr>)
      | Resolved _ \<Rightarrow>
          (True,
           s1\<lparr>messages := filter (\<lambda>msg. uuid msg \<noteq> Some messageUUID) (messages s1),
              loading := False\<rparr>))"

section \<open>The Gateway client\<close>

text \<open>
  \<open>ApiClient\<close> reads its base URL and API key from the environment once.
  \<open>request\<close> calls \<open>fetch(url, {...options, headers})\<close>; the model
  returns the two arguments of that call.
\<close>

record api_client =
  baseUrl :: string
  apiKey :: string

record fetch_init =
  http_method :: "string option"
  body :: "string option"
  headers :: "(string \<times> string) list"

record fetch_call =
  url :: string
  init :: fetch_init

text \<open>The second argument that \<open>getMessages\<close> passes to \<open>client.get\<close>.\<close>

record request_config =
  params :: "(string \<times> nat) list"

text \<open>
  Object spread \<open>{...a, ...b}\<close> on objects kept as association lists: a key of
  \<open>b\<close> that \<open>a\<close> has keeps its place and takes the new value, a new key goes
  to the end.
\<close>

fun object_set :: "(string \<times> 'v) list \<Rightarrow> string \<Rightarrow> 'v \<Rightarrow> (string \<times> 'v) list" where
  "object_set [] k v = [(k, v)]"
| "object_set ((k', v') # kvs) k v =
     (if k' = k then (k, v) # kvs else (k', v') # object_set kvs k v)"

fun object_spread :: "(string \<times> 'v) list \<Rightarrow> (string \<times> 'v) list \<Rightarrow> (string \<times> 'v) list" where
  "object_spread a [] = a"
| "object_spread a ((k, v) # kvs) = object_spread (object_set a k v) kvs"

definition ApiClient_request :: "api_client \<Rightarrow> string \<Rightarrow> fetch_init \<Rightarrow> fetch_call" where
  "ApiClient_request client endpoint options =
     (let url = baseUrl client @ endpoint;
          headers = object_spread [(''Authorization'', ''Bearer '' @ apiKey client)]
                      (headers options)
      in \<lparr>url = url, init = options\<lparr>headers := headers\<rparr>\<rparr>)"

text \<open>
  \<^verbatim>\<open>async get(endpoint) { return this.request(endpoint, { method: 'GET' }); }\<close>
\<close>

definition ApiClient_get :: "api_client \<Rightarrow> string \<Rightarrow> fetch_call" where
  "ApiClient_get client endpoint =
     ApiClient_request client endpoint \<lparr>http_method = Some ''GET'', body = None, headers = []\<rparr>"

text \<open>
  A call \<open>client.get(endpoint, config)\<close> of the one-parameter method: JavaScript
  binds the first actual argument to \<open>endpoint\<close> and discards the second.
\<close>

definition ApiClient_get_call2 :: "api_client \<Rightarrow> string \<Rightarrow> request_config \<Rightarrow> fetch_call" where
  "ApiClient_get_call2 client endpoint config = ApiClient_get client endpoint"

text \<open>
  \<^verbatim>\<open>client.get(`/contacts/${contactUUID}/messages`, { params: { limit: 100 } })\<close>
  The value is the \<open>fetch\<close> call that \<open>messagesService.getMessages\<close> issues,
  the only Gateway call of \<open>loadMessages\<close>.
\<close>

definition getMessages :: "api_client \<Rightarrow> string \<Rightarrow> fetch_call" where
  "getMessages client contactUUID =
     ApiClient_get_call2 client (''/contacts/'' @ contactUUID @ ''/messages'')
       \<lparr>params = [(''limit'', 100)]\<rparr>"

section \<open>Auxiliary facts\<close>

lemma mergeMessages_kept:
  "mergeMessages r l = r @ filter (\<lambda>x. uuid x \<notin> uuid ` set r) l"
proof -
  have "filter (\<lambda>x. \<not> list_ex (\<lambda>msg. uuid msg = uuid x) r) l =
        filter (\<lambda>x. uuid x \<notin> uuid ` set r) l"
    by (rule filter_cong) (force simp: list_ex_iff image_iff)+
  then show ?thesis
    by (simp add: mergeMessages_def)
qed

lemma loadMessages_resolved:
  assumes "fault \<noteq> ReadFails"
  shows "loadMessages c (Resolved response) fault s =
     (let fetched = (case resp_messages response of None \<Rightarrow> [] | Some ms \<Rightarrow> ms);
          out = (case storage s (storage_key c) of None \<Rightarrow> fetched
                 | Some l \<Rightarrow> mergeMessages fetched l)
      in (out, s\<lparr>messages := out, loading := False, error := None\<rparr>))"
  using assms
  by (simp add: loadMessages_def loadMessages_resume_def loadMessages_start_def Let_def)

lemma loadMessages_rejected:
  "loadMessages c Rejected fault s =
     ([], s\<lparr>loading := False, error := Some ''Failed to load messages''\<rparr>)"
  by (simp add: loadMessages_def loadMessages_resume_def loadMessages_start_def
      loadMessages_catch_def)

lemma loadMessages_read_fails:
  "loadMessages c g ReadFails s =
     ([], s\<lparr>loading := False, error := Some ''Failed to load messages''\<rparr>)"
  by (cases g)
    (simp_all add: loadMessages_def loadMessages_resume_def loadMessages_start_def
      loadMessages_catch_def)

lemma loadMessages_output:
  assumes "fault \<noteq> ReadFails"
    and "remote = (case resp_messages response of None \<Rightarrow> [] | Some ms \<Rightarrow> ms)"
    and "local = (case storage s (storage_key c) of None \<Rightarrow> [] | Some ms \<Rightarrow> ms)"
  shows "loadMessages c (Resolved response) fault s =
     (remote @ filter (\<lambda>x. uuid x \<notin> uuid ` set remote) local,
      s\<lparr>messages := remote @ filter (\<lambda>x. uuid x \<notin> uuid ` set remote) local,
        loading := False, error := None\<rparr>)"
  using assms
  by (simp add: loadMessages_resolved mergeMessages_kept Let_def split: option.splits)

lemma sendMessage_rejected:
  "sendMessage c t Rejected dn nd fault s =
     (None, s\<lparr>loading := False, error := Some ''Failed to send message''\<rparr>)"
  by (simp add: sendMessage_def sendMessage_resume_def sendMessage_start_def sendMessage_catch_def)

lemma sendMessage_resolved_cache:
  "messages (snd (sendMessage c t (Resolved response) dn nd fault s)) =
     messages s @ [newMessage_of response t dn nd]"
  by (simp add: sendMessage_def sendMessage_resume_def sendMessage_start_def sendMessage_catch_def
      Let_def)

lemma sendMessage_resolved_nofault:
  "sendMessage c t (Resolved response) dn nd NoFault s =
     (Some (newMessage_of response t dn nd),
      s\<lparr>messages := messages s @ [newMessage_of response t dn nd],
        loading := False, error := None,
        storage := (storage s)(storage_key c \<mapsto>
          (case storage s (storage_key c) of None \<Rightarrow> [] | Some ms \<Rightarrow> ms)
            @ [newMessage_of response t dn nd])\<rparr>)"
  by (simp add: sendMessage_def sendMessage_resume_def sendMessage_start_def Let_def)

lemma sendMessage_resolved_fault:
  assumes "fault \<noteq> NoFault"
  shows "sendMessage c t (Resolved response) dn nd fault s =
     (None,
      s\<lparr>messages := messages s @ [newMessage_of response t dn nd],
        loading := False, error := Some ''Failed to send message''\<rparr>)"
  using assms
  by (cases fault)
    (simp_all add: sendMessage_def sendMessage_resume_def sendMessage_start_def
      sendMessage_catch_def Let_def)

lemma deleteMessage_resolved:
  "deleteMessage mid (Resolved u) s =
     (True, s\<lparr>messages := filter (\<lambda>msg. uuid msg \<noteq> Some mid) (messages s),
              loading := False, error := None\<rparr>)"
  by (simp add: deleteMessage_def Let_def)

lemma getMessages_fetch:
  "getMessages client contactUUID =
     \<lparr>url = baseUrl client @ ''/contacts/'' @ contactUUID @ ''/messages'',
      init = \<lparr>http_method = Some ''GET'', body = None,
              headers = [(''Authorization'', ''Bearer '' @ apiKey client)]\<rparr>\<rparr>"
  by (simp add: getMessages_def ApiClient_get_call2_def ApiClient_get_def ApiClient_request_def)

section \<open>Claims about the load-time merge\<close>

text \<open>
  C1 (as stated): for every remote and local sequence the merged output, and so the
  published cache, holds no two messages with the same id. It fails when the Gateway
  itself returns an id twice: the merge only compares local entries with remote ones.
\<close>

theorem loadMessages_duplicate_ids_counterexample:
  "\<not> distinct (map uuid (messages (snd (loadMessages ''c1''
      (Resolved \<lparr>resp_messages = Some
        [\<lparr>uuid = Some ''m-1'', msg_text = ''hi'', createdAt = 10, outgoing = None\<rparr>,
         \<lparr>uuid = Some ''m-1'', msg_text = ''hi'', createdAt = 10, outgoing = None\<rparr>]\<rparr>)
      NoFault
      \<lparr>messages = [], loading = False, error = None,
       storage = [''messages_c1'' \<mapsto>
         [\<lparr>uuid = Some ''m-2'', msg_text = ''yo'', createdAt = 20, outgoing = Some True\<rparr>]]\<rparr>))))"
  by (simp add: loadMessages_resolved mergeMessages_kept storage_key_def)

text \<open>
  C1 (amended): a local entry is dropped exactly when a remote entry has the same uuid,
  the published cache is the merged output, and the output holds no two messages with
  the same uuid whenever neither input sequence does by itself.
\<close>

theorem loadMessages_merge_unique:
  assumes "fault \<noteq> ReadFails"
    and "remote = (case resp_messages response of None \<Rightarrow> [] | Some ms \<Rightarrow> ms)"
    and "local = (case storage s (storage_key c) of None \<Rightarrow> [] | Some ms \<Rightarrow> ms)"
    and "distinct (map uuid remote)"
    and "distinct (map uuid local)"
  shows "fst (loadMessages c (Resolved response) fault s) =
           remote @ filter (\<lambda>x. uuid x \<notin> uuid ` set remote) local
       \<and> messages (snd (loadMessages c (Resolved response) fault s)) =
           fst (loadMessages c (Resolved response) fault s)
       \<and> distinct (map uuid (fst (loadMessages c (Resolved response) fault s)))"
proof -
  let ?kept = "filter (\<lambda>x. uuid x \<notin> uuid ` set remote) local"
  have out: "loadMessages c (Resolved response) fault s =
      (remote @ ?kept, s\<lparr>messages := remote @ ?kept, loading := False, error := None\<rparr>)"
    using assms(1-3) by (rule loadMessages_output)
  have "distinct (map uuid ?kept)"
    using assms(5) by (rule distinct_map_filter)
  moreover have "set (map uuid remote) \<inter> set (map uuid ?kept) = {}"
    by (force simp: image_iff)
  ultimately have "distinct (map uuid (remote @ ?kept))"
    using assms(4) by simp
  with out show ?thesis
    by simp
qed

theorem loadMessages_merge_unique_witness:
  "fst (loadMessages ''c1''
      (Resolved \<lparr>resp_messages = Some
        [\<lparr>uuid = Some ''m-1'', msg_text = ''hi'', createdAt = 10, outgoing = None\<rparr>]\<rparr>)
      NoFault
      \<lparr>messages = [], loading = False, error = None,
       storage = [''messages_c1'' \<mapsto>
         [\<lparr>uuid = Some ''m-1'', msg_text = ''hi'', createdAt = 10, outgoing = Some True\<rparr>,
          \<lparr>uuid = Some ''m-2'', msg_text = ''yo'', createdAt = 20, outgoing = Some True\<rparr>]]\<rparr>)
   = [\<lparr>uuid = Some ''m-1'', msg_text = ''hi'', createdAt = 10, outgoing = None\<rparr>,
      \<lparr>uuid = Some ''m-2'', msg_text = ''yo'', createdAt = 20, outgoing = Some True\<rparr>]
   \<and> distinct (map uuid (fst (loadMessages ''c1''
      (Resolved \<lparr>resp_messages = Some
        [\<lparr>uuid = Some ''m-1'', msg_text = ''hi'', createdAt = 10, outgoing = None\<rparr>]\<rparr>)
      NoFault
      \<lparr>messages = [], loading = False, error = None,
       storage = [''messages_c1'' \<mapsto>
         [\<lparr>uuid = Some ''m-1'', msg_text = ''hi'', createdAt = 10, outgoing = Some True\<rparr>,
          \<lparr>uuid = Some ''m-2'', msg_text = ''yo'', createdAt = 20, outgoing = Some True\<rparr>]]\<rparr>)))"
  using loadMessages_merge_unique [of NoFault
      "[\<lparr>uuid = Some ''m-1'', msg_text = ''hi'', createdAt = 10, outgoing = None\<rparr>]"
      "\<lparr>resp_messages = Some
        [\<lparr>uuid = Some ''m-1'', msg_text = ''hi'', createdAt = 10, outgoing = None\<rparr>]\<rparr>"
      "[\<lparr>uuid = Some ''m-1'', msg_text = ''hi'', createdAt = 10, outgoing = Some True\<rparr>,
        \<lparr>uuid = Some ''m-2'', msg_text = ''yo'', createdAt = 20, outgoing = Some True\<rparr>]"
      "\<lparr>messages = [], loading = False, error = None,
       storage = [''messages_c1'' \<mapsto>
         [\<lparr>uuid = Some ''m-1'', msg_text = ''hi'', createdAt = 10, outgoing = Some True\<rparr>,
          \<lparr>uuid = Some ''m-2'', msg_text = ''yo'', createdAt = 20, outgoing = Some True\<rparr>]]\<rparr>"
      "''c1''"]
  by (simp add: storage_key_def)

text \<open>
  C2 (as stated): the sequence returned by the load-time merge is non-decreasing in
  createdAt. It fails when a stored local message is older than a remote one: nothing
  in the merge sorts.
\<close>

theorem loadMessages_unsorted_counterexample:
  "\<not> sorted (map createdAt (fst (loadMessages ''c1''
      (Resolved \<lparr>resp_messages = Some
        [\<lparr>uuid = Some ''m-1'', msg_text = ''late'', createdAt = 20, outgoing = None\<rparr>]\<rparr>)
      NoFault
      \<lparr>messages = [], loading = False, error = None,
       storage = [''messages_c1'' \<mapsto>
         [\<lparr>uuid = Some ''m-2'', msg_text = ''early'', createdAt = 10, outgoing = Some True\<rparr>]]\<rparr>)))"
  by (simp add: loadMessages_resolved mergeMessages_kept storage_key_def)

text \<open>
  C2 (amended): the returned sequence is the remote sequence in the Gateway's order
  followed by the retained local entries in their stored order; it is non-decreasing in
  createdAt exactly when the remote part is, the retained local part is, and no remote
  entry is later than a retained local one.
\<close>

theorem loadMessages_order:
  assumes "fault \<noteq> ReadFails"
    and "remote = (case resp_messages response of None \<Rightarrow> [] | Some ms \<Rightarrow> ms)"
    and "local = (case storage s (storage_key c) of None \<Rightarrow> [] | Some ms \<Rightarrow> ms)"
    and "kept = filter (\<lambda>x. uuid x \<notin> uuid ` set remote) local"
  shows "fst (loadMessages c (Resolved response) fault s) = remote @ kept
       \<and> (sorted (map createdAt (fst (loadMessages c (Resolved response) fault s))) \<longleftrightarrow>
            sorted (map createdAt remote) \<and> sorted (map createdAt kept) \<and>
            (\<forall>r \<in> set remote. \<forall>l \<in> set kept. createdAt r \<le> createdAt l))"
proof -
  have "loadMessages c (Resolved response) fault s =
      (remote @ kept, s\<lparr>messages := remote @ kept, loading := False, error := None\<rparr>)"
    unfolding assms(4) using assms(1-3) by (rule loadMessages_output)
  then show ?thesis
    by (auto simp: sorted_append)
qed

theorem loadMessages_order_witness:
  "fst (loadMessages ''c1''
      (Resolved \<lparr>resp_messages = Some
        [\<lparr>uuid = Some ''m-1'', msg_text = ''hi'', createdAt = 10, outgoing = None\<rparr>]\<rparr>)
      NoFault
      \<lparr>messages = [], loading = False, error = None,
       storage = [''messages_c1'' \<mapsto>
         [\<lparr>uuid = Some ''m-1'', msg_text = ''hi'', createdAt = 10, outgoing = Some True\<rparr>,
          \<lparr>uuid = Some ''m-2'', msg_text = ''yo'', createdAt = 20, outgoing = Some True\<rparr>]]\<rparr>)
   = [\<lparr>uuid = Some ''m-1'', msg_text = ''hi'', createdAt = 10, outgoing = None\<rparr>,
      \<lparr>uuid = Some ''m-2'', msg_text = ''yo'', createdAt = 20, outgoing = Some True\<rparr>]
   \<and> sorted (map createdAt (fst (loadMessages ''c1''
      (Resolved \<lparr>resp_messages = Some
        [\<lparr>uuid = Some ''m-1'', msg_text = ''hi'', createdAt = 10, outgoing = None\<rparr>]\<rparr>)
      NoFault
      \<lparr>messages = [], loading = False, error = None,
       storage = [''messages_c1'' \<mapsto>
         [\<lparr>uuid = Some ''m-1'', msg_text = ''hi'', createdAt = 10, outgoing = Some True\<rparr>,
          \<lparr>uuid = Some ''m-2'', msg_text = ''yo'', createdAt = 20, outgoing = Some True\<rparr>]]\<rparr>)))"
  using loadMessages_order [of NoFault
      "[\<lparr>uuid = Some ''m-1'', msg_text = ''hi'', createdAt = 10, outgoing = None\<rparr>]"
      "\<lparr>resp_messages = Some
        [\<lparr>uuid = Some ''m-1'', msg_text = ''hi'', createdAt = 10, outgoing = None\<rparr>]\<rparr>"
      "[\<lparr>uuid = Some ''m-1'', msg_text = ''hi'', createdAt = 10, outgoing = Some True\<rparr>,
        \<lparr>uuid = Some ''m-2'', msg_text = ''yo'', createdAt = 20, outgoing = Some True\<rparr>]"
      "\<lparr>messages = [], loading = False, error = None,
       storage = [''messages_c1'' \<mapsto>
         [\<lparr>uuid = Some ''m-1'', msg_text = ''hi'', createdAt = 10, outgoing = Some True\<rparr>,
          \<lparr>uuid = Some ''m-2'', msg_text = ''yo'', createdAt = 20, outgoing = Some True\<rparr>]]\<rparr>"
      "''c1''"
      "[\<lparr>uuid = Some ''m-2'', msg_text = ''yo'', createdAt = 20, outgoing = Some True\<rparr>]"]
  by (simp add: storage_key_def)

section \<open>Claims about sendMessage\<close>

text \<open>
  C3 (as stated): sendMessage puts a pending placeholder entry into the cache before the
  Gateway answers and returns that provisional entry. While the request is in flight
  the cache of a fresh conversation is still empty, and what the caller gets back is the
  entry the Gateway confirmed.
\<close>

theorem sendMessage_no_optimistic_entry_counterexample:
  "messages (sendMessage_start
      \<lparr>messages = [], loading = False, error = None, storage = Map.empty\<rparr>) = []
   \<and> fst (sendMessage ''c1'' ''hi''
      (Resolved \<lparr>resp_message = Some
          \<lparr>uuid = Some ''m-42'', msg_text = ''hi'', createdAt = 10, outgoing = None\<rparr>,
        resp_uuid = None\<rparr>)
      1000 1000 NoFault
      \<lparr>messages = [], loading = False, error = None, storage = Map.empty\<rparr>)
     = Some \<lparr>uuid = Some ''m-42'', msg_text = ''hi'', createdAt = 10, outgoing = None\<rparr>"
  by (simp add: sendMessage_start_def sendMessage_resolved_nofault newMessage_of_def)

text \<open>
  C3 (amended): sendMessage leaves the cache as it was while the Gateway request is in
  flight. Once the Gateway confirms with a message, that confirmed message is appended
  to the cache as its last entry, no placeholder entry exists at any point, and the
  confirmed message is what the call returns when the Store read and write succeed. If
  no cached entry carried the confirmed uuid before, exactly one does afterwards.
\<close>

theorem sendMessage_confirmed_append:
  assumes "resp_message response = Some m"
  shows "messages (sendMessage_start s) = messages s
       \<and> messages (snd (sendMessage c t (Resolved response) dn nd fault s)) = messages s @ [m]
       \<and> fst (sendMessage c t (Resolved response) dn nd NoFault s) = Some m
       \<and> (uuid m \<notin> uuid ` set (messages s) \<longrightarrow>
            length (filter (\<lambda>x. uuid x = uuid m)
              (messages (snd (sendMessage c t (Resolved response) dn nd fault s)))) = 1)"
proof -
  have new: "newMessage_of response t dn nd = m"
    using assms by (simp add: newMessage_of_def)
  have cache: "messages (snd (sendMessage c t (Resolved response) dn nd fault s)) = messages s @ [m]"
    by (simp add: sendMessage_resolved_cache new)
  have "filter (\<lambda>x. uuid x = uuid m) (messages s) = []" if "uuid m \<notin> uuid ` set (messages s)"
    using that by (force simp: filter_empty_conv image_iff)
  then show ?thesis
    by (simp add: cache sendMessage_start_def sendMessage_resolved_nofault new)
qed

theorem sendMessage_confirmed_append_witness:
  "messages (snd (sendMessage ''c1'' ''hi''
      (Resolved \<lparr>resp_message = Some
          \<lparr>uuid = Some ''m-42'', msg_text = ''hi'', createdAt = 10, outgoing = None\<rparr>,
        resp_uuid = None\<rparr>)
      1000 1000 NoFault
      \<lparr>messages = [\<lparr>uuid = Some ''m-7'', msg_text = ''yo'', createdAt = 5, outgoing = None\<rparr>],
       loading = False, error = None, storage = Map.empty\<rparr>))
   = [\<lparr>uuid = Some ''m-7'', msg_text = ''yo'', createdAt = 5, outgoing = None\<rparr>,
      \<lparr>uuid = Some ''m-42'', msg_text = ''hi'', createdAt = 10, outgoing = None\<rparr>]
   \<and> length (filter (\<lambda>x. uuid x = Some ''m-42'')
        (messages (snd (sendMessage ''c1'' ''hi''
          (Resolved \<lparr>resp_message = Some
              \<lparr>uuid = Some ''m-42'', msg_text = ''hi'', createdAt = 10, outgoing = None\<rparr>,
            resp_uuid = None\<rparr>)
          1000 1000 NoFault
          \<lparr>messages = [\<lparr>uuid = Some ''m-7'', msg_text = ''yo'', createdAt = 5, outgoing = None\<rparr>],
           loading = False, error = None, storage = Map.empty\<rparr>)))) = 1"
  using sendMessage_confirmed_append [of
      "\<lparr>resp_message = Some
          \<lparr>uuid = Some ''m-42'', msg_text = ''hi'', createdAt = 10, outgoing = None\<rparr>,
        resp_uuid = None\<rparr>"
      "\<lparr>uuid = Some ''m-42'', msg_text = ''hi'', createdAt = 10, outgoing = None\<rparr>"
      "\<lparr>messages = [\<lparr>uuid = Some ''m-7'', msg_text = ''yo'', createdAt = 5, outgoing = None\<rparr>],
       loading = False, error = None, storage = Map.empty\<rparr>"
      "''c1''" "''hi''" 1000 1000 NoFault]
  by simp

text \<open>
  C4 (as stated): after a failed Gateway send the cache still holds the optimistic entry,
  marked failed. After a failed send into an empty cache the cache is empty: there is no
  entry for the send at all.
\<close>

theorem sendMessage_failed_no_entry_counterexample:
  "messages (snd (sendMessage ''c1'' ''hi'' Rejected 1000 1000 NoFault
      \<lparr>messages = [], loading = False, error = None, storage = Map.empty\<rparr>)) = []"
  by (simp add: sendMessage_rejected)

text \<open>
  C4 (amended): if the Gateway send fails, sendMessage returns null, the cache is exactly
  what it was before the call (no entry for the send is added), the error slot holds
  "Failed to send message", and nothing is written to the Store.
\<close>

theorem sendMessage_gateway_failure:
  "fst (sendMessage c t Rejected dn nd fault s) = None
   \<and> messages (snd (sendMessage c t Rejected dn nd fault s)) = messages s
   \<and> error (snd (sendMessage c t Rejected dn nd fault s)) = Some ''Failed to send message''
   \<and> loading (snd (sendMessage c t Rejected dn nd fault s)) = False
   \<and> storage (snd (sendMessage c t Rejected dn nd fault s)) = storage s"
  by (simp add: sendMessage_rejected)

text \<open>
  C10 (as stated): when the Gateway send succeeds and the response has no message
  field, the synthesized entry is appended both to the cache and to the conversation's
  persisted Store list. When the Store write is rejected the entry is in the cache, the
  persisted list was never written, and the call returns null.
\<close>

theorem sendMessage_fallback_not_persisted_counterexample:
  "storage (snd (sendMessage ''c1'' ''hi''
      (Resolved \<lparr>resp_message = None, resp_uuid = Some ''m-42''\<rparr>) 1000 1000 WriteFails
      \<lparr>messages = [], loading = False, error = None, storage = Map.empty\<rparr>)) ''messages_c1''
     = None
   \<and> messages (snd (sendMessage ''c1'' ''hi''
      (Resolved \<lparr>resp_message = None, resp_uuid = Some ''m-42''\<rparr>) 1000 1000 WriteFails
      \<lparr>messages = [], loading = False, error = None, storage = Map.empty\<rparr>))
     = [\<lparr>uuid = Some ''m-42'', msg_text = ''hi'', createdAt = 1000, outgoing = Some True\<rparr>]
   \<and> fst (sendMessage ''c1'' ''hi''
      (Resolved \<lparr>resp_message = None, resp_uuid = Some ''m-42''\<rparr>) 1000 1000 WriteFails
      \<lparr>messages = [], loading = False, error = None, storage = Map.empty\<rparr>) = None"
  by (simp add: sendMessage_resolved_fault newMessage_of_def)

text \<open>
  C10 (amended): when the Gateway send succeeds and the response has no message field,
  the entry is synthesized with the response's uuid or, failing that (absent or empty),
  the decimal string of Date.now(); it is appended to the cache whatever the Store does.
  When the Store read and write succeed it is also appended to the conversation's
  persisted list and is what the call returns; when the Store read or write is rejected
  the Store is left as it was, the call returns null and the error slot holds
  "Failed to send message".
\<close>

theorem sendMessage_fallback_message:
  assumes "resp_message response = None"
    and "fallback =
      \<lparr>uuid = Some (case resp_uuid response of
                      None \<Rightarrow> toString dn
                    | Some u \<Rightarrow> if u = [] then toString dn else u),
       msg_text = t, createdAt = nd, outgoing = Some True\<rparr>"
  shows "messages (snd (sendMessage c t (Resolved response) dn nd fault s)) =
           messages s @ [fallback]
       \<and> storage (snd (sendMessage c t (Resolved response) dn nd NoFault s)) (storage_key c) =
           Some ((case storage s (storage_key c) of None \<Rightarrow> [] | Some ms \<Rightarrow> ms) @ [fallback])
       \<and> fst (sendMessage c t (Resolved response) dn nd NoFault s) = Some fallback
       \<and> (fault \<noteq> NoFault \<longrightarrow>
            storage (snd (sendMessage c t (Resolved response) dn nd fault s)) = storage s
          \<and> fst (sendMessage c t (Resolved response) dn nd fault s) = None
          \<and> error (snd (sendMessage c t (Resolved response) dn nd fault s)) =
              Some ''Failed to send message'')"
proof -
  have new: "newMessage_of response t dn nd = fallback"
    using assms by (simp add: newMessage_of_def)
  have ok: "messages (snd (sendMessage c t (Resolved response) dn nd fault s)) =
           messages s @ [fallback]
       \<and> storage (snd (sendMessage c t (Resolved response) dn nd NoFault s)) (storage_key c) =
           Some ((case storage s (storage_key c) of None \<Rightarrow> [] | Some ms \<Rightarrow> ms) @ [fallback])
       \<and> fst (sendMessage c t (Resolved response) dn nd NoFault s) = Some fallback"
    by (simp add: sendMessage_resolved_cache sendMessage_resolved_nofault new)
  have "storage (snd (sendMessage c t (Resolved response) dn nd fault s)) = storage s
      \<and> fst (sendMessage c t (Resolved response) dn nd fault s) = None
      \<and> error (snd (sendMessage c t (Resolved response) dn nd fault s)) =
          Some ''Failed to send message''"
    if "fault \<noteq> NoFault"
    using that by (simp add: sendMessage_resolved_fault)
  with ok show ?thesis
    by blast
qed

theorem sendMessage_fallback_message_witness:
  "messages (snd (sendMessage ''c1'' ''hi''
      (Resolved \<lparr>resp_message = None, resp_uuid = None\<rparr>) 1730000000123 1730000000124 WriteFails
      \<lparr>messages = [], loading = False, error = None, storage = Map.empty\<rparr>))
   = [\<lparr>uuid = Some ''1730000000123'', msg_text = ''hi'', createdAt = 1730000000124,
       outgoing = Some True\<rparr>]
   \<and> storage (snd (sendMessage ''c1'' ''hi''
      (Resolved \<lparr>resp_message = None, resp_uuid = None\<rparr>) 1730000000123 1730000000124 NoFault
      \<lparr>messages = [], loading = False, error = None, storage = Map.empty\<rparr>)) ''messages_c1''
   = Some [\<lparr>uuid = Some ''1730000000123'', msg_text = ''hi'', createdAt = 1730000000124,
       outgoing = Some True\<rparr>]
   \<and> fst (sendMessage ''c1'' ''hi''
      (Resolved \<lparr>resp_message = None, resp_uuid = None\<rparr>) 1730000000123 1730000000124 NoFault
      \<lparr>messages = [], loading = False, error = None, storage = Map.empty\<rparr>)
   = Some \<lparr>uuid = Some ''1730000000123'', msg_text = ''hi'', createdAt = 1730000000124,
       outgoing = Some True\<rparr>
   \<and> fst (sendMessage ''c1'' ''hi''
      (Resolved \<lparr>resp_message = None, resp_uuid = None\<rparr>) 1730000000123 1730000000124 WriteFails
      \<lparr>messages = [], loading = False, error = None, storage = Map.empty\<rparr>) = None
   \<and> storage (snd (sendMessage ''c1'' ''hi''
      (Resolved \<lparr>resp_message = None, resp_uuid = None\<rparr>) 1730000000123 1730000000124 WriteFails
      \<lparr>messages = [], loading = False, error = None, storage = Map.empty\<rparr>)) ''messages_c1''
   = None"
  using sendMessage_fallback_message [of
      "\<lparr>resp_message = None, resp_uuid = None\<rparr>"
      "\<lparr>uuid = Some ''1730000000123'', msg_text = ''hi'', createdAt = 1730000000124,
        outgoing = Some True\<rparr>"
      1730000000123 "''hi''" 1730000000124 "''c1''" WriteFails
      "\<lparr>messages = [], loading = False, error = None, storage = Map.empty\<rparr>"]
  by (simp add: toString.simps digit_char_def storage_key_def)

section \<open>Claims about a failed or repeated load\<close>

text \<open>
  C5 (as stated): when the Gateway fetch fails, loadMessages fails with FetchFailed
  instead of returning a normal message sequence. The call returns the empty sequence,
  the same value as a successful load of a conversation without messages.
\<close>

theorem loadMessages_failure_returns_empty_counterexample:
  "fst (loadMessages ''c1'' Rejected NoFault
      \<lparr>messages = [\<lparr>uuid = Some ''m-1'', msg_text = ''hi'', createdAt = 10, outgoing = None\<rparr>],
       loading = False, error = None, storage = Map.empty\<rparr>) = []
   \<and> fst (loadMessages ''c1'' Rejected NoFault
      \<lparr>messages = [\<lparr>uuid = Some ''m-1'', msg_text = ''hi'', createdAt = 10, outgoing = None\<rparr>],
       loading = False, error = None, storage = Map.empty\<rparr>)
     = fst (loadMessages ''c1'' (Resolved \<lparr>resp_messages = Some []\<rparr>) NoFault
      \<lparr>messages = [\<lparr>uuid = Some ''m-1'', msg_text = ''hi'', createdAt = 10, outgoing = None\<rparr>],
       loading = False, error = None, storage = Map.empty\<rparr>)"
  by (simp add: loadMessages_rejected loadMessages_resolved storage_key_def)

text \<open>
  C5 (amended): if the Gateway fetch fails during loadMessages, the call returns the
  empty sequence and records "Failed to load messages" in the error slot; the cached
  message list and the Store are left exactly as they were before the call.
\<close>

theorem loadMessages_gateway_failure:
  "fst (loadMessages c Rejected fault s) = []
   \<and> error (snd (loadMessages c Rejected fault s)) = Some ''Failed to load messages''
   \<and> loading (snd (loadMessages c Rejected fault s)) = False
   \<and> messages (snd (loadMessages c Rejected fault s)) = messages s
   \<and> storage (snd (loadMessages c Rejected fault s)) = storage s"
  by (simp add: loadMessages_rejected)

text \<open>
  C7: the load-time merge is a function of the Gateway's answer and the stored list
  alone: two loads that see the same answer and the same stored list for the
  conversation return the same sequence, whatever the previous cache, loading flag,
  error slot or other conversations' stored lists are. Loading again after a load, with
  the same answer, gives the same sequence and the same state.
\<close>

theorem loadMessages_deterministic:
  assumes "storage s' (storage_key c) = storage s (storage_key c)"
  shows "fst (loadMessages c g fault s') = fst (loadMessages c g fault s)
       \<and> loadMessages c g fault (snd (loadMessages c g fault s)) = loadMessages c g fault s"
proof (cases "fault = ReadFails")
  case True
  then show ?thesis
    by (simp add: loadMessages_read_fails)
next
  case False
  with assms show ?thesis
    by (cases g) (simp_all add: loadMessages_rejected loadMessages_resolved Let_def)
qed

theorem loadMessages_deterministic_witness:
  "fst (loadMessages ''c1''
      (Resolved \<lparr>resp_messages = Some
        [\<lparr>uuid = Some ''m-1'', msg_text = ''hi'', createdAt = 10, outgoing = None\<rparr>]\<rparr>)
      NoFault
      \<lparr>messages = [\<lparr>uuid = Some ''m-0'', msg_text = ''old'', createdAt = 1, outgoing = None\<rparr>],
       loading = True, error = Some ''Failed to load messages'',
       storage = [''messages_c2'' \<mapsto> [],
         ''messages_c1'' \<mapsto>
           [\<lparr>uuid = Some ''m-2'', msg_text = ''yo'', createdAt = 20, outgoing = Some True\<rparr>]]\<rparr>)
   = fst (loadMessages ''c1''
      (Resolved \<lparr>resp_messages = Some
        [\<lparr>uuid = Some ''m-1'', msg_text = ''hi'', createdAt = 10, outgoing = None\<rparr>]\<rparr>)
      NoFault
      \<lparr>messages = [], loading = False, error = None,
       storage = [''messages_c1'' \<mapsto>
         [\<lparr>uuid = Some ''m-2'', msg_text = ''yo'', createdAt = 20, outgoing = Some True\<rparr>]]\<rparr>)"
  using loadMessages_deterministic [of
      "\<lparr>messages = [\<lparr>uuid = Some ''m-0'', msg_text = ''old'', createdAt = 1, outgoing = None\<rparr>],
       loading = True, error = Some ''Failed to load messages'',
       storage = [''messages_c2'' \<mapsto> [],
         ''messages_c1'' \<mapsto>
           [\<lparr>uuid = Some ''m-2'', msg_text = ''yo'', createdAt = 20, outgoing = Some True\<rparr>]]\<rparr>"
      "''c1''"
      "\<lparr>messages = [], loading = False, error = None,
       storage = [''messages_c1'' \<mapsto>
         [\<lparr>uuid = Some ''m-2'', msg_text = ''yo'', createdAt = 20, outgoing = Some True\<rparr>]]\<rparr>"
      "Resolved \<lparr>resp_messages = Some
        [\<lparr>uuid = Some ''m-1'', msg_text = ''hi'', createdAt = 10, outgoing = None\<rparr>]\<rparr>"
      NoFault]
  by (simp add: storage_key_def)

section \<open>Claims about deleteMessage\<close>

text \<open>
  C6 (as stated): a successful delete of a message of local origin also removes it from
  the Store. A message that sendMessage persisted is still in the Store's list after its
  successful delete, although it has left the cache.
\<close>

theorem deleteMessage_store_untouched_counterexample:
  "storage (snd (deleteMessage ''m-42'' (Resolved ())
      (snd (sendMessage ''c1'' ''hi''
        (Resolved \<lparr>resp_message = Some
            \<lparr>uuid = Some ''m-42'', msg_text = ''hi'', createdAt = 10, outgoing = None\<rparr>,
          resp_uuid = None\<rparr>)
        1000 1000 NoFault
        \<lparr>messages = [], loading = False, error = None, storage = Map.empty\<rparr>))))
     ''messages_c1''
   = Some [\<lparr>uuid = Some ''m-42'', msg_text = ''hi'', createdAt = 10, outgoing = None\<rparr>]
   \<and> messages (snd (deleteMessage ''m-42'' (Resolved ())
      (snd (sendMessage ''c1'' ''hi''
        (Resolved \<lparr>resp_message = Some
            \<lparr>uuid = Some ''m-42'', msg_text = ''hi'', createdAt = 10, outgoing = None\<rparr>,
          resp_uuid = None\<rparr>)
        1000 1000 NoFault
        \<lparr>messages = [], loading = False, error = None, storage = Map.empty\<rparr>)))) = []"
  by (simp add: deleteMessage_resolved sendMessage_resolved_nofault newMessage_of_def
      storage_key_def)

text \<open>
  C6 (amended): if the Gateway delete succeeds, deleteMessage removes the entry from the
  cache and leaves the Store as it was, whether the message was remote-only or had been
  persisted locally.
\<close>

theorem deleteMessage_cache_only:
  "messages (snd (deleteMessage mid (Resolved u) s)) =
      filter (\<lambda>msg. uuid msg \<noteq> Some mid) (messages s)
   \<and> storage (snd (deleteMessage mid (Resolved u) s)) = storage s"
  by (simp add: deleteMessage_resolved)

text \<open>
  C9: when the Gateway delete succeeds, deleteMessage returns true whatever the cache
  holds, and the new cache is the old one without the entries whose uuid is the given
  id: the other entries stay, in their order, and a cache without the id is unchanged.
\<close>

theorem deleteMessage_success:
  "fst (deleteMessage mid (Resolved u) s) = True
   \<and> messages (snd (deleteMessage mid (Resolved u) s)) =
       filter (\<lambda>msg. uuid msg \<noteq> Some mid) (messages s)
   \<and> (Some mid \<notin> uuid ` set (messages s) \<longrightarrow>
        messages (snd (deleteMessage mid (Resolved u) s)) = messages s)"
proof -
  have "filter (\<lambda>msg. uuid msg \<noteq> Some mid) (messages s) = messages s"
    if "Some mid \<notin> uuid ` set (messages s)"
    using that by (force simp: filter_id_conv image_iff)
  then show ?thesis
    by (simp add: deleteMessage_resolved)
qed

theorem deleteMessage_success_witness:
  "fst (deleteMessage ''m-9'' (Resolved ())
      \<lparr>messages = [\<lparr>uuid = Some ''m-1'', msg_text = ''hi'', createdAt = 10, outgoing = None\<rparr>],
       loading = False, error = None, storage = Map.empty\<rparr>) = True
   \<and> messages (snd (deleteMessage ''m-9'' (Resolved ())
      \<lparr>messages = [\<lparr>uuid = Some ''m-1'', msg_text = ''hi'', createdAt = 10, outgoing = None\<rparr>],
       loading = False, error = None, storage = Map.empty\<rparr>))
     = [\<lparr>uuid = Some ''m-1'', msg_text = ''hi'', createdAt = 10, outgoing = None\<rparr>]"
  using deleteMessage_success [of "''m-9''" "()"
      "\<lparr>messages = [\<lparr>uuid = Some ''m-1'', msg_text = ''hi'', createdAt = 10, outgoing = None\<rparr>],
       loading = False, error = None, storage = Map.empty\<rparr>"]
  by simp

section \<open>Claims about the Gateway request\<close>

text \<open>
  C8: every history request of loadMessages carries the page-size limit. getMessages
  passes a config with limit 100 to get, whose single parameter is the endpoint, so the
  fetch call that goes out has the bare messages URL, the method and the Authorization
  header, and no limit.
\<close>

theorem getMessages_request_without_limit:
  "getMessages \<lparr>baseUrl = ''https://api.callbell.eu/v1'', apiKey = ''secret''\<rparr> ''c1'' =
     \<lparr>url = ''https://api.callbell.eu/v1/contacts/c1/messages'',
      init = \<lparr>http_method = Some ''GET'', body = None,
              headers = [(''Authorization'', ''Bearer secret'')]\<rparr>\<rparr>"
  by (simp add: getMessages_fetch)

end
